theory Spec2Isabelle
  imports Complex_Main
begin

section \<open>The fleet monitor of \<open>nucypher/cli/moe.py\<close>\<close>

text \<open>
  The monitor consists of two subclasses that hook into inherited methods and publish
  what those methods return through \<open>hey_joe.send(payload, topic)\<close>, and of two closures
  that answer a late-joining subscriber with a full snapshot. The inherited methods
  (\<open>FleetStateTracker\<close>, \<open>Character\<close>) are not part of the monitor's file: every
  definition below takes them as parameters, so each theorem holds for whatever the
  base classes do.
\<close>

subsection \<open>Values on the feed\<close>

text \<open>
  What Python hands to \<open>json.dumps\<close>: strings, dictionaries (association lists, in the
  order of the dictionary), arrays, and the objects produced by
  \<open>abridged_state_details\<close> and \<open>abridged_node_details\<close>, which are kept opaque
  (\<open>'d\<close>).
\<close>

datatype 'd json =
    JStr string
  | JDetail 'd
  | JObj "(string \<times> 'd json) list"
  | JArr "'d json list"

type_synonym 'd payload = "(string \<times> 'd json) list"

text \<open>The two arguments of one call \<open>hey_joe.send(payload, topic)\<close>.\<close>

type_synonym 'd event = "'d payload \<times> string"

subsection \<open>Methods as programs\<close>

text \<open>
  A method call either returns a value or raises; in both cases it leaves a new state
  behind, and the calls of \<open>hey_joe.send\<close> made before a raise have happened. A program
  returns its outcome, the events it published in order, and the state it leaves.
  \<open>AttributeError\<close> is what Python raises for an attribute of \<open>None\<close>; \<open>Raised\<close>
  stands for any exception of inherited code.
\<close>

datatype error = AttributeError | Raised string

type_synonym ('s, 'a) silent = "'s \<Rightarrow> (error + 'a) \<times> 's"

type_synonym ('s, 'd, 'a) prog = "'s \<Rightarrow> (error + 'a) \<times> 'd event list \<times> 's"

definition ret :: "'a \<Rightarrow> ('s, 'd, 'a) prog" where
  "ret x s = (Inr x, [], s)"

definition raise_error :: "error \<Rightarrow> ('s, 'd, 'a) prog" where
  "raise_error e s = (Inl e, [], s)"

definition bind :: "('s, 'd, 'a) prog \<Rightarrow> ('a \<Rightarrow> ('s, 'd, 'b) prog) \<Rightarrow> ('s, 'd, 'b) prog" where
  "bind m f s =
     (case m s of
        (Inl e, out, s') \<Rightarrow> (Inl e, out, s')
      | (Inr x, out, s') \<Rightarrow> (case f x s' of (r, out', s'') \<Rightarrow> (r, out @ out', s'')))"

text \<open>
  The tracker's own \<open>record_fleet_state\<close> and the learner's \<open>current_teacher_node\<close>
  have no publisher to call: they are programs that publish nothing.
\<close>

definition lift :: "('s, 'a) silent \<Rightarrow> ('s, 'd, 'a) prog" where
  "lift m s = (case m s of (r, s') \<Rightarrow> (r, [], s'))"

definition hey_joe_send :: "'d payload \<Rightarrow> string \<Rightarrow> ('s, 'd, unit) prog" where
  "hey_joe_send payload topic s = (Inr (), [(payload, topic)], s)"

definition outcome :: "(error + 'a) \<times> 'd event list \<times> 's \<Rightarrow> error + 'a" where
  "outcome r = fst r"

definition published :: "(error + 'a) \<times> 'd event list \<times> 's \<Rightarrow> 'd event list" where
  "published r = fst (snd r)"

definition state_after :: "(error + 'a) \<times> 'd event list \<times> 's \<Rightarrow> 's" where
  "state_after r = snd (snd r)"

subsection \<open>\<open>MonitoringTracker.record_fleet_state\<close>\<close>

text \<open>
  \<^verbatim>\<open>
  def record_fleet_state(self, *args, **kwargs):
      new_state_or_none = super(MonitoringTracker, self).record_fleet_state(*args, **kwargs)
      if new_state_or_none:
          checksum, new_state = new_state_or_none
          hey_joe.send({checksum: self.abridged_state_details(new_state)}, "states")
      return new_state_or_none
  \<close>
  The inherited method returns a pair (always truthy) or \<open>None\<close>.
\<close>

definition MonitoringTracker_record_fleet_state ::
  "('a \<Rightarrow> ('s, (string \<times> 'f) option) silent) \<Rightarrow> ('f \<Rightarrow> 'd) \<Rightarrow>
   'a \<Rightarrow> ('s, 'd, (string \<times> 'f) option) prog" where
  "MonitoringTracker_record_fleet_state super_record_fleet_state abridged_state_details args =
     bind (lift (super_record_fleet_state args)) (\<lambda>new_state_or_none.
     bind (case new_state_or_none of
             Some (checksum, new_state) \<Rightarrow>
               hey_joe_send [(checksum, JDetail (abridged_state_details new_state))] ''states''
           | None \<Rightarrow> ret ()) (\<lambda>_.
     ret new_state_or_none))"

subsection \<open>\<open>Moe.remember_node\<close>\<close>

text \<open>
  \<^verbatim>\<open>
  def remember_node(self, *args, **kwargs):
      new_node_or_none = super().remember_node(*args, **kwargs)
      if new_node_or_none:
          hey_joe.send(
              {new_node_or_none.checksum_public_address:
                 MonitoringTracker.abridged_node_details(new_node_or_none)},
              "nodes")
      return new_node_or_none
  \<close>
  The inherited method may publish: it records the fleet state through the tracker
  class, which is \<open>MonitoringTracker\<close>.
\<close>

definition Moe_remember_node ::
  "('a \<Rightarrow> ('s, 'd, 'n option) prog) \<Rightarrow> ('n \<Rightarrow> string) \<Rightarrow> ('n \<Rightarrow> 'd) \<Rightarrow>
   'a \<Rightarrow> ('s, 'd, 'n option) prog" where
  "Moe_remember_node super_remember_node checksum_public_address abridged_node_details args =
     bind (super_remember_node args) (\<lambda>new_node_or_none.
     bind (case new_node_or_none of
             Some node \<Rightarrow>
               hey_joe_send
                 [(checksum_public_address node, JDetail (abridged_node_details node))]
                 ''nodes''
           | None \<Rightarrow> ret ()) (\<lambda>_.
     ret new_node_or_none))"

subsection \<open>\<open>Moe.learn_from_teacher_node\<close>\<close>

text \<open>
  \<^verbatim>\<open>
  def learn_from_teacher_node(self, *args, **kwargs):
      teacher = self.current_teacher_node(cycle=False)
      new_nodes = super().learn_from_teacher_node(*args, **kwargs)
      hey_joe.send({teacher.checksum_public_address:
                      MonitoringTracker.abridged_node_details(teacher)}, "nodes")
      new_teacher = self.current_teacher_node(cycle=False)
      hey_joe.send({"current_teacher": new_teacher.checksum_public_address}, "teachers")
      return new_nodes
  \<close>
  Reading \<open>checksum_public_address\<close> of \<open>None\<close> raises \<open>AttributeError\<close>; in the
  dictionary display the key is evaluated before the value. The inherited learning
  calls \<open>self.remember_node\<close>, which is \<open>Moe.remember_node\<close>: it receives that method
  as its first argument.
\<close>

definition Moe_learn_from_teacher_node ::
  "(bool \<Rightarrow> ('s, 'n option) silent) \<Rightarrow>
   (('b \<Rightarrow> ('s, 'd, 'n option) prog) \<Rightarrow> 'a \<Rightarrow> ('s, 'd, 'r) prog) \<Rightarrow>
   ('b \<Rightarrow> ('s, 'd, 'n option) prog) \<Rightarrow> ('n \<Rightarrow> string) \<Rightarrow> ('n \<Rightarrow> 'd) \<Rightarrow>
   'a \<Rightarrow> ('s, 'd, 'r) prog" where
  "Moe_learn_from_teacher_node current_teacher_node super_learn_from_teacher_node
       super_remember_node checksum_public_address abridged_node_details args =
     bind (lift (current_teacher_node False)) (\<lambda>teacher.
     bind (super_learn_from_teacher_node
             (Moe_remember_node super_remember_node checksum_public_address
                abridged_node_details) args) (\<lambda>new_nodes.
     bind (case teacher of
             None \<Rightarrow> raise_error AttributeError
           | Some node \<Rightarrow>
               hey_joe_send
                 [(checksum_public_address node, JDetail (abridged_node_details node))]
                 ''nodes'') (\<lambda>_.
     bind (lift (current_teacher_node False)) (\<lambda>new_teacher.
     bind (case new_teacher of
             None \<Rightarrow> raise_error AttributeError
           | Some node \<Rightarrow>
               hey_joe_send
                 [(''current_teacher'', JStr (checksum_public_address node))]
                 ''teachers'') (\<lambda>_.
     ret new_nodes)))))"

subsection \<open>Successive calls\<close>

text \<open>
  The monitor's methods are called again and again by the learning loop. A caller that
  survives an exception calls again on the state the failed call left; the events of
  all calls arrive in the order of the calls.
\<close>

fun run_calls ::
  "('a \<Rightarrow> ('s, 'd, 'r) prog) \<Rightarrow> 'a list \<Rightarrow> 's \<Rightarrow> (error + 'r) list \<times> 'd event list \<times> 's" where
  "run_calls f [] s = ([], [], s)"
| "run_calls f (a # as) s =
     (case f a s of (r, out, s') \<Rightarrow>
        (case run_calls f as s' of (rs, outs, s'') \<Rightarrow> (r # rs, out @ outs, s'')))"

fun run_silent_calls ::
  "('a \<Rightarrow> ('s, 'r) silent) \<Rightarrow> 'a list \<Rightarrow> 's \<Rightarrow> (error + 'r) list \<times> 's" where
  "run_silent_calls f [] s = ([], s)"
| "run_silent_calls f (a # as) s =
     (case f a s of (r, s') \<Rightarrow>
        (case run_silent_calls f as s' of (rs, s'') \<Rightarrow> (r # rs, s'')))"

text \<open>The pairs among the outcomes of successive \<open>record_fleet_state\<close> calls.\<close>

fun new_states :: "(error + 'x option) list \<Rightarrow> 'x list" where
  "new_states [] = []"
| "new_states (Inr (Some x) # rs) = x # new_states rs"
| "new_states (r # rs) = new_states rs"

subsection \<open>The websocket service\<close>

text \<open>
  Modelled from the spec: \<open>hey_joe\<close> is the external notification router. What it puts on
  the wire for \<open>hey_joe.send(payload, topic)\<close> is the two-element array
  \<open>[topic, payload]\<close>, delivered to the subscribers of that topic in publish order.
\<close>

definition wire :: "'d event \<Rightarrow> 'd json" where
  "wire e = JArr [JStr (snd e), JObj (fst e)]"

definition received :: "string \<Rightarrow> 'd event list \<Rightarrow> 'd json list" where
  "received topic events = map wire (filter (\<lambda>e. snd e = topic) events)"

text \<open>
  \<^verbatim>\<open>
  def send_states(subscriber):
      message = ["states", monitor.known_nodes.abridged_states_dict()]
      subscriber.sendMessage(json.dumps(message).encode())

  def send_nodes(subscriber):
      message = ["nodes", monitor.known_nodes.abridged_nodes_dict()]
      subscriber.sendMessage(json.dumps(message).encode())
  \<close>
  Each closure sends one message to the subscriber; the definitions give that message
  before serialisation.
\<close>

text \<open>
  Modelled from the spec: \<open>abridged_states_dict\<close> and \<open>abridged_nodes_dict\<close> belong to
  the inherited tracker, which is not in the monitor's file; they are parameters that
  read the monitor and return a dictionary from checksum (from node identity) to the
  abridged detail object.
\<close>

definition send_states :: "('s \<Rightarrow> (string \<times> 'd) list) \<Rightarrow> 's \<Rightarrow> 'd json" where
  "send_states abridged_states_dict monitor =
     JArr [JStr ''states'', JObj (map (\<lambda>(k, v). (k, JDetail v)) (abridged_states_dict monitor))]"

definition send_nodes :: "('s \<Rightarrow> (string \<times> 'd) list) \<Rightarrow> 's \<Rightarrow> 'd json" where
  "send_nodes abridged_nodes_dict monitor =
     JArr [JStr ''nodes'', JObj (map (\<lambda>(k, v). (k, JDetail v)) (abridged_nodes_dict monitor))]"

text \<open>
  Modelled from the spec: the service class belongs to \<open>hey_joe\<close>. The specification
  gives a subscriber two sources of messages. One is \<open>register(topic, handler)\<close>, which
  "associates a topic with a callback that, given a subscriber, produces and sends a
  full-snapshot message (used for late-joining subscribers)": a subscriber that
  registers on a topic is sent what the callback associated with that topic produces,
  and a topic with no callback associated has nothing that produces a snapshot. The
  other is \<open>publish\<close>, whose messages are "delivered to every currently-registered
  subscriber whose filter matches topic". A new service has no callback.
\<close>

definition WebSocketService :: "string \<rightharpoonup> 'h" where
  "WebSocketService = Map.empty"

definition register_followup :: "string \<Rightarrow> 'h \<Rightarrow> (string \<rightharpoonup> 'h) \<Rightarrow> (string \<rightharpoonup> 'h)" where
  "register_followup topic handler service = service(topic \<mapsto> handler)"

definition on_subscribe :: "(string \<rightharpoonup> ('s \<Rightarrow> 'd json)) \<Rightarrow> string \<Rightarrow> 's \<Rightarrow> 'd json list" where
  "on_subscribe service topic monitor =
     (case service topic of None \<Rightarrow> [] | Some handler \<Rightarrow> [handler monitor])"

definition subscriber_feed ::
  "(string \<rightharpoonup> ('s \<Rightarrow> 'd json)) \<Rightarrow> string \<Rightarrow> 's \<Rightarrow> 'd event list \<Rightarrow> 'd json list" where
  "subscriber_feed service topic monitor later_events =
     on_subscribe service topic monitor @ received topic later_events"

text \<open>
  \<^verbatim>\<open>
  websocket_service = hey_joe.WebSocketService("127.0.0.1", ws_port)
  websocket_service.register_followup("states", send_states)
  websocket_service.register_followup("nodes", send_nodes)
  \<close>
  The service as the command leaves it, after both registrations in their order.
\<close>

definition moe_websocket_service ::
  "('s \<Rightarrow> (string \<times> 'd) list) \<Rightarrow> ('s \<Rightarrow> (string \<times> 'd) list) \<Rightarrow> (string \<rightharpoonup> ('s \<Rightarrow> 'd json))" where
  "moe_websocket_service abridged_states_dict abridged_nodes_dict =
     register_followup ''nodes'' (send_nodes abridged_nodes_dict)
       (register_followup ''states'' (send_states abridged_states_dict) WebSocketService)"

subsection \<open>Shapes of a message\<close>

text \<open>
  The shape every message is said to have: a two-element array of a topic among
  \<open>nodes\<close>, \<open>states\<close>, \<open>teachers\<close> and a dictionary whose values are abridged detail
  objects.
\<close>

fun is_detail :: "string \<times> 'd json \<Rightarrow> bool" where
  "is_detail (k, JDetail d) = True"
| "is_detail (k, v) = False"

fun detail_message :: "'d json \<Rightarrow> bool" where
  "detail_message (JArr [JStr topic, JObj payload]) =
     (topic \<in> set [''nodes'', ''states'', ''teachers''] \<and> list_all is_detail payload)"
| "detail_message m = False"

text \<open>
  The shape of the message that names the teacher: topic \<open>teachers\<close>, and a dictionary
  with the single key \<open>current_teacher\<close> and a string as its value.
\<close>

fun teacher_message :: "'d json \<Rightarrow> bool" where
  "teacher_message (JArr [JStr topic, JObj [(k, JStr address)]]) =
     (topic = ''teachers'' \<and> k = ''current_teacher'')"
| "teacher_message m = False"

fun feed_message :: "'d json \<Rightarrow> bool" where
  "feed_message (JArr [JStr topic, JObj payload]) =
     (if topic = ''teachers'' then teacher_message (JArr [JStr topic, JObj payload])
      else topic \<in> set [''nodes'', ''states''] \<and> list_all is_detail payload)"
| "feed_message m = False"

subsection \<open>The learning loop's delays\<close>

text \<open>
  \<^verbatim>\<open>
  _SHORT_LEARNING_DELAY = .5
  _LONG_LEARNING_DELAY = 30
  LEARNING_TIMEOUT = 10
  _ROUNDS_WITHOUT_NODES_AFTER_WHICH_TO_SLOW_DOWN = 25
  \<close>
  The four class constants of \<open>Moe\<close>; \<open>.5\<close> is the rational one half.
\<close>

record learning_config =
  SHORT_LEARNING_DELAY :: rat
  LONG_LEARNING_DELAY :: rat
  LEARNING_TIMEOUT :: rat
  ROUNDS_WITHOUT_NODES_AFTER_WHICH_TO_SLOW_DOWN :: nat

definition Moe_config :: learning_config where
  "Moe_config =
     \<lparr>SHORT_LEARNING_DELAY = 1 / 2, LONG_LEARNING_DELAY = 30, LEARNING_TIMEOUT = 10,
      ROUNDS_WITHOUT_NODES_AFTER_WHICH_TO_SLOW_DOWN = 25\<rparr>"

text \<open>
  Modelled from the spec: the loop that uses these constants is inherited and not part
  of the monitor's file. It starts at the short interval; a round that takes longer
  than the timeout is abandoned and counts as a round without new nodes; after the
  configured number of consecutive rounds without new nodes the interval is the long
  one; a round that learns a node sets the interval back to the short one.
\<close>

record learning_loop =
  interval :: rat
  rounds_without_new_nodes :: nat

record round =
  duration :: rat
  learned :: nat

definition start_learning_loop :: "learning_config \<Rightarrow> learning_loop" where
  \<comment> \<open>Modelled from the spec: the loop starts at the short interval.\<close>
  "start_learning_loop cfg =
     \<lparr>interval = SHORT_LEARNING_DELAY cfg, rounds_without_new_nodes = 0\<rparr>"

definition new_node_count :: "learning_config \<Rightarrow> round \<Rightarrow> nat" where
  \<comment> \<open>Modelled from the spec: a round that exceeds the timeout counts as zero new nodes.\<close>
  "new_node_count cfg r = (if LEARNING_TIMEOUT cfg < duration r then 0 else learned r)"

definition after_round :: "learning_config \<Rightarrow> learning_loop \<Rightarrow> round \<Rightarrow> learning_loop" where
  \<comment> \<open>Modelled from the spec: FAST to SLOW after N empty rounds, back to FAST on any new node.\<close>
  "after_round cfg loop r =
     (if 0 < new_node_count cfg r
      then \<lparr>interval = SHORT_LEARNING_DELAY cfg, rounds_without_new_nodes = 0\<rparr>
      else let n = rounds_without_new_nodes loop + 1
           in \<lparr>interval =
                 (if ROUNDS_WITHOUT_NODES_AFTER_WHICH_TO_SLOW_DOWN cfg \<le> n
                  then LONG_LEARNING_DELAY cfg else interval loop),
               rounds_without_new_nodes = n\<rparr>)"

fun run_rounds :: "learning_config \<Rightarrow> learning_loop \<Rightarrow> round list \<Rightarrow> learning_loop" where
  "run_rounds cfg loop [] = loop"
| "run_rounds cfg loop (r # rs) = run_rounds cfg (after_round cfg loop r) rs"

text \<open>A round that exceeds the timeout of 10 s; what it reports as learned is ignored.\<close>

definition timed_out_round :: round where
  "timed_out_round = \<lparr>duration = 11, learned = 2\<rparr>"

subsection \<open>An in-memory fleet\<close>

text \<open>
  Modelled from the spec: a small tracker and learner that keep the contract the
  specification gives for the inherited methods, used to run the monitor on concrete
  fleets. A node has an identity and a nickname; the fleet remembers its nodes in
  order of arrival, the checksum it recorded last, and the queue of teachers, whose
  head is the current teacher.
\<close>

record node =
  checksum_public_address :: string
  nickname :: string

record fleet =
  known_nodes :: "node list"
  recorded_checksum :: "string option"
  teacher_nodes :: "node list"

definition fleet_checksum :: "node list \<Rightarrow> string" where
  "fleet_checksum ns = concat (map checksum_public_address ns)"

definition fleet_abridged_node_details :: "node \<Rightarrow> string list" where
  "fleet_abridged_node_details n = [nickname n]"

definition fleet_abridged_state_details :: "node list \<Rightarrow> string list" where
  "fleet_abridged_state_details ns = map nickname ns"

text \<open>
  Modelled from the spec: \<open>record_fleet_state\<close> recomputes the state and returns the
  new pair only if the checksum differs from the one recorded before.
\<close>

definition fleet_record_fleet_state :: "unit \<Rightarrow> (fleet, (string \<times> node list) option) silent" where
  "fleet_record_fleet_state u tracker =
     (let c = fleet_checksum (known_nodes tracker)
      in if recorded_checksum tracker = Some c then (Inr None, tracker)
         else (Inr (Some (c, known_nodes tracker)), tracker\<lparr>recorded_checksum := Some c\<rparr>))"

text \<open>
  Modelled from the spec: \<open>remember_node\<close> inserts or updates a record by identity,
  triggers the recomputation of the state (through the tracker class, which is the
  monitoring one), and returns the record if it was newly inserted, else nothing.
\<close>

definition fleet_remember_node :: "node \<Rightarrow> (fleet, string list, node option) prog" where
  "fleet_remember_node n learner =
     (if checksum_public_address n \<in> set (map checksum_public_address (known_nodes learner))
      then bind (MonitoringTracker_record_fleet_state fleet_record_fleet_state
                   fleet_abridged_state_details ()) (\<lambda>_. ret None)
             (learner\<lparr>known_nodes :=
                map (\<lambda>m. if checksum_public_address m = checksum_public_address n then n else m)
                  (known_nodes learner)\<rparr>)
      else bind (MonitoringTracker_record_fleet_state fleet_record_fleet_state
                   fleet_abridged_state_details ()) (\<lambda>_. ret (Some n))
             (learner\<lparr>known_nodes := known_nodes learner @ [n],
                teacher_nodes := teacher_nodes learner @ [n]\<rparr>))"

text \<open>
  Modelled from the spec: \<open>current_teacher_node\<close> reads the current-teacher pointer;
  only \<open>cycle=True\<close> advances it first.
\<close>

definition fleet_current_teacher_node :: "bool \<Rightarrow> (fleet, node option) silent" where
  "fleet_current_teacher_node cycle learner =
     (let learner' =
        (if cycle then learner\<lparr>teacher_nodes := rotate1 (teacher_nodes learner)\<rparr> else learner)
      in (Inr (case teacher_nodes learner' of [] \<Rightarrow> None | t # ts \<Rightarrow> Some t), learner'))"

text \<open>
  Modelled from the spec: a learning round asks the current teacher for its peers
  (\<open>peers\<close> is the transport; \<open>None\<close> is an unreachable teacher, an empty round),
  remembers each of them through \<open>remember_node\<close>, rotates the teacher, and returns the
  newly learned nodes.
\<close>

fun remember_all ::
  "('n \<Rightarrow> ('s, 'd, 'n option) prog) \<Rightarrow> 'n list \<Rightarrow> ('s, 'd, 'n list) prog" where
  "remember_all remember_node [] = ret []"
| "remember_all remember_node (p # ps) =
     bind (remember_node p) (\<lambda>new_node_or_none.
     bind (remember_all remember_node ps) (\<lambda>new_nodes.
     ret (case new_node_or_none of None \<Rightarrow> new_nodes | Some n \<Rightarrow> n # new_nodes)))"

definition fleet_learn_from_teacher_node ::
  "(node \<Rightarrow> node list option) \<Rightarrow> (node \<Rightarrow> (fleet, string list, node option) prog) \<Rightarrow>
   unit \<Rightarrow> (fleet, string list, node list) prog" where
  "fleet_learn_from_teacher_node peers remember_node u =
     bind (lift (fleet_current_teacher_node False)) (\<lambda>teacher.
     bind (case teacher of
             None \<Rightarrow> ret []
           | Some t \<Rightarrow>
               (case peers t of None \<Rightarrow> ret [] | Some ps \<Rightarrow> remember_all remember_node ps))
       (\<lambda>new_nodes.
     bind (lift (fleet_current_teacher_node True)) (\<lambda>_.
     ret new_nodes)))"

text \<open>Three nodes; \<open>ursula_a\<close> knows the other two, the others know nobody new.\<close>

definition ursula_a :: node where
  "ursula_a = \<lparr>checksum_public_address = ''0xA'', nickname = ''amber''\<rparr>"

definition ursula_b :: node where
  "ursula_b = \<lparr>checksum_public_address = ''0xB'', nickname = ''blue''\<rparr>"

definition ursula_c :: node where
  "ursula_c = \<lparr>checksum_public_address = ''0xC'', nickname = ''coral''\<rparr>"

definition peers_of :: "node \<Rightarrow> node list option" where
  "peers_of t =
     (if checksum_public_address t = ''0xA'' then Some [ursula_a, ursula_b, ursula_c]
      else Some [])"

definition empty_fleet :: fleet where
  "empty_fleet = \<lparr>known_nodes = [], recorded_checksum = None, teacher_nodes = []\<rparr>"

text \<open>The fleet of a monitor started with \<open>known_nodes=[ursula_a]\<close>.\<close>

definition seeded_fleet :: fleet where
  "seeded_fleet =
     \<lparr>known_nodes = [ursula_a], recorded_checksum = Some ''0xA'', teacher_nodes = [ursula_a]\<rparr>"

text \<open>A fleet whose only node, the teacher, knows nobody new.\<close>

definition quiet_fleet :: fleet where
  "quiet_fleet =
     \<lparr>known_nodes = [ursula_b], recorded_checksum = Some ''0xB'', teacher_nodes = [ursula_b]\<rparr>"

text \<open>The seeded fleet after one learning round.\<close>

definition learned_fleet :: fleet where
  "learned_fleet =
     \<lparr>known_nodes = [ursula_a, ursula_b, ursula_c], recorded_checksum = Some ''0xA0xB0xC'',
      teacher_nodes = [ursula_b, ursula_c, ursula_a]\<rparr>"

text \<open>The current-teacher pointer of the in-memory fleet.\<close>

definition current_teacher :: "fleet \<Rightarrow> node option" where
  "current_teacher learner = (case teacher_nodes learner of [] \<Rightarrow> None | t # ts \<Rightarrow> Some t)"

section \<open>The overrides, case by case\<close>

lemma MonitoringTracker_record_fleet_state_cases:
  "MonitoringTracker_record_fleet_state super_rfs abridged args s =
     (case super_rfs args s of
        (Inl e, s') \<Rightarrow> (Inl e, [], s')
      | (Inr None, s') \<Rightarrow> (Inr None, [], s')
      | (Inr (Some (c, new_state)), s') \<Rightarrow>
          (Inr (Some (c, new_state)), [([(c, JDetail (abridged new_state))], ''states'')], s'))"
  by (simp add: MonitoringTracker_record_fleet_state_def bind_def lift_def ret_def
      hey_joe_send_def split: prod.splits sum.splits option.splits)

lemma Moe_remember_node_cases:
  "Moe_remember_node super_rn cpa abridged args s =
     (case super_rn args s of
        (Inl e, out, s') \<Rightarrow> (Inl e, out, s')
      | (Inr None, out, s') \<Rightarrow> (Inr None, out, s')
      | (Inr (Some n), out, s') \<Rightarrow>
          (Inr (Some n), out @ [([(cpa n, JDetail (abridged n))], ''nodes'')], s'))"
  by (simp add: Moe_remember_node_def bind_def ret_def hey_joe_send_def
      split: prod.splits sum.splits option.splits)

lemma Moe_learn_from_teacher_node_cases:
  "Moe_learn_from_teacher_node ctn super_learn super_rn cpa abridged args s =
     (case ctn False s of
        (Inl e, s1) \<Rightarrow> (Inl e, [], s1)
      | (Inr teacher, s1) \<Rightarrow>
          (case super_learn (Moe_remember_node super_rn cpa abridged) args s1 of
             (Inl e, out, s2) \<Rightarrow> (Inl e, out, s2)
           | (Inr new_nodes, out, s2) \<Rightarrow>
               (case teacher of
                  None \<Rightarrow> (Inl AttributeError, out, s2)
                | Some t \<Rightarrow>
                    (case ctn False s2 of
                       (Inl e, s3) \<Rightarrow>
                         (Inl e, out @ [([(cpa t, JDetail (abridged t))], ''nodes'')], s3)
                     | (Inr None, s3) \<Rightarrow>
                         (Inl AttributeError,
                          out @ [([(cpa t, JDetail (abridged t))], ''nodes'')], s3)
                     | (Inr (Some t'), s3) \<Rightarrow>
                         (Inr new_nodes,
                          out @ [([(cpa t, JDetail (abridged t))], ''nodes''),
                                 ([(''current_teacher'', JStr (cpa t'))], ''teachers'')],
                          s3)))))"
  by (simp add: Moe_learn_from_teacher_node_def bind_def lift_def ret_def raise_error_def
      hey_joe_send_def split: prod.splits sum.splits option.splits)

lemma run_calls_record_fleet_state:
  "run_calls (MonitoringTracker_record_fleet_state super_rfs abridged) argss s =
     (case run_silent_calls super_rfs argss s of
        (rs, s') \<Rightarrow>
          (rs, map (\<lambda>(c, st). ([(c, JDetail (abridged st))], ''states'')) (new_states rs), s'))"
proof (induction argss arbitrary: s)
  case Nil
  show ?case by simp
next
  case (Cons a argss)
  obtain r s1 where b: "super_rfs a s = (r, s1)"
    by (cases "super_rfs a s")
  obtain rs s2 where rc: "run_silent_calls super_rfs argss s1 = (rs, s2)"
    by (cases "run_silent_calls super_rfs argss s1")
  have ih: "run_calls (MonitoringTracker_record_fleet_state super_rfs abridged) argss s1 =
      (rs, map (\<lambda>(c, st). ([(c, JDetail (abridged st))], ''states'')) (new_states rs), s2)"
    using Cons.IH [of s1] rc by simp
  show ?case
  proof (cases r)
    case (Inl e)
    then have "MonitoringTracker_record_fleet_state super_rfs abridged a s = (Inl e, [], s1)"
      using b by (simp add: MonitoringTracker_record_fleet_state_cases)
    then show ?thesis using Inl ih rc b by simp
  next
    case (Inr x)
    show ?thesis
    proof (cases x)
      case None
      then have "MonitoringTracker_record_fleet_state super_rfs abridged a s = (Inr None, [], s1)"
        using b Inr by (simp add: MonitoringTracker_record_fleet_state_cases)
      then show ?thesis using Inr None ih rc b by simp
    next
      case (Some p)
      obtain c st where p: "p = (c, st)" by (cases p)
      have "MonitoringTracker_record_fleet_state super_rfs abridged a s =
          (Inr (Some (c, st)), [([(c, JDetail (abridged st))], ''states'')], s1)"
        using b Inr Some p by (simp add: MonitoringTracker_record_fleet_state_cases)
      then show ?thesis using Inr Some p ih rc b by simp
    qed
  qed
qed

lemma received_states_events:
  "received ''states'' (map (\<lambda>(c, st). ([(c, JDetail (abridged st))], ''states'')) xs) =
     map (\<lambda>(c, st). JArr [JStr ''states'', JObj [(c, JDetail (abridged st))]]) xs"
  by (induction xs) (auto simp: received_def wire_def)

lemmas fleet_simps =
  fleet_remember_node_def fleet_record_fleet_state_def fleet_checksum_def
  fleet_abridged_node_details_def fleet_abridged_state_details_def
  fleet_current_teacher_node_def fleet_learn_from_teacher_node_def
  ursula_a_def ursula_b_def ursula_c_def peers_of_def empty_fleet_def seeded_fleet_def
  MonitoringTracker_record_fleet_state_def bind_def ret_def lift_def hey_joe_send_def
  raise_error_def Let_def

subsection \<open>Rounds of the in-memory fleet\<close>

lemma seeded_round:
  "fleet_learn_from_teacher_node peers_of
     (Moe_remember_node fleet_remember_node checksum_public_address fleet_abridged_node_details)
     () seeded_fleet =
   (Inr [ursula_b, ursula_c],
    [([(''0xA0xB'', JDetail [''amber'', ''blue''])], ''states''),
     ([(''0xB'', JDetail [''blue''])], ''nodes''),
     ([(''0xA0xB0xC'', JDetail [''amber'', ''blue'', ''coral''])], ''states''),
     ([(''0xC'', JDetail [''coral''])], ''nodes'')],
    learned_fleet)"
  by (simp add: fleet_simps Moe_remember_node_def learned_fleet_def)

lemma quiet_round:
  "fleet_learn_from_teacher_node peers_of
     (Moe_remember_node fleet_remember_node checksum_public_address fleet_abridged_node_details)
     () quiet_fleet = (Inr [], [], quiet_fleet)"
  by (simp add: fleet_simps Moe_remember_node_def quiet_fleet_def)

lemma empty_round:
  "fleet_learn_from_teacher_node peers_of
     (Moe_remember_node fleet_remember_node checksum_public_address fleet_abridged_node_details)
     () empty_fleet = (Inr [], [], empty_fleet)"
  by (simp add: fleet_simps Moe_remember_node_def)

lemma fleet_teacher_query:
  "fleet_current_teacher_node False learner = (Inr (current_teacher learner), learner)"
  by (simp add: fleet_current_teacher_node_def current_teacher_def)

section \<open>What the overrides publish\<close>

text \<open>
  C1. A call of \<open>MonitoringTracker.record_fleet_state\<close> publishes a \<open>states\<close> event if
  and only if the inherited \<open>record_fleet_state\<close> returns a pair; the event maps the
  new checksum to the abridged details of the new state; when the inherited method
  returns nothing (or raises), nothing is published. Over any sequence of calls a
  subscriber of \<open>states\<close> therefore receives exactly one message for each pair the
  inherited method returned, in order, and none for the calls that returned nothing.
\<close>

theorem C1_states_event_iff_new_state:
  "published (MonitoringTracker_record_fleet_state super_rfs abridged args s) =
     (case fst (super_rfs args s) of
        Inr (Some (c, new_state)) \<Rightarrow> [([(c, JDetail (abridged new_state))], ''states'')]
      | Inr None \<Rightarrow> []
      | Inl e \<Rightarrow> [])
   \<and> ((published (MonitoringTracker_record_fleet_state super_rfs abridged args s) \<noteq> []) =
      (\<exists>c new_state. fst (super_rfs args s) = Inr (Some (c, new_state))))
   \<and> received ''states''
       (fst (snd (run_calls (MonitoringTracker_record_fleet_state super_rfs abridged) argss s))) =
     map (\<lambda>(c, new_state). JArr [JStr ''states'', JObj [(c, JDetail (abridged new_state))]])
       (new_states (fst (run_silent_calls super_rfs argss s)))"
proof (intro conjI)
  show "published (MonitoringTracker_record_fleet_state super_rfs abridged args s) =
     (case fst (super_rfs args s) of
        Inr (Some (c, new_state)) \<Rightarrow> [([(c, JDetail (abridged new_state))], ''states'')]
      | Inr None \<Rightarrow> []
      | Inl e \<Rightarrow> [])"
    by (simp add: MonitoringTracker_record_fleet_state_cases published_def
        split: prod.splits sum.splits option.splits)
  show "(published (MonitoringTracker_record_fleet_state super_rfs abridged args s) \<noteq> []) =
      (\<exists>c new_state. fst (super_rfs args s) = Inr (Some (c, new_state)))"
    by (simp add: MonitoringTracker_record_fleet_state_cases published_def
        split: prod.splits sum.splits option.splits)
  show "received ''states''
       (fst (snd (run_calls (MonitoringTracker_record_fleet_state super_rfs abridged) argss s))) =
     map (\<lambda>(c, new_state). JArr [JStr ''states'', JObj [(c, JDetail (abridged new_state))]])
       (new_states (fst (run_silent_calls super_rfs argss s)))"
  proof -
    obtain rs s2 where rc: "run_silent_calls super_rfs argss s = (rs, s2)"
      by (cases "run_silent_calls super_rfs argss s")
    show ?thesis
      by (simp only: run_calls_record_fleet_state rc prod.case fst_conv snd_conv
          received_states_events)
  qed
qed

text \<open>
  C8. Both overrides hand back what the inherited method returned, raised and left as
  state, whatever the input: \<open>MonitoringTracker.record_fleet_state\<close> adds at most its
  \<open>states\<close> event to nothing, \<open>Moe.remember_node\<close> adds at most its \<open>nodes\<close> event
  after the events of the inherited call.
\<close>

theorem C8_overrides_return_inherited_result:
  "outcome (MonitoringTracker_record_fleet_state super_rfs abridged_state args s) =
     fst (super_rfs args s)
   \<and> state_after (MonitoringTracker_record_fleet_state super_rfs abridged_state args s) =
     snd (super_rfs args s)
   \<and> outcome (Moe_remember_node super_rn cpa abridged_node args' s) =
     outcome (super_rn args' s)
   \<and> state_after (Moe_remember_node super_rn cpa abridged_node args' s) =
     state_after (super_rn args' s)
   \<and> published (Moe_remember_node super_rn cpa abridged_node args' s) =
     published (super_rn args' s) @
     (case outcome (super_rn args' s) of
        Inr (Some n) \<Rightarrow> [([(cpa n, JDetail (abridged_node n))], ''nodes'')]
      | Inr None \<Rightarrow> []
      | Inl e \<Rightarrow> [])"
  by (simp add: MonitoringTracker_record_fleet_state_cases Moe_remember_node_cases
      outcome_def state_after_def published_def split: prod.splits sum.splits option.splits)

text \<open>
  C2. Let the inherited \<open>remember_node\<close> return the record \<open>r\<close> on the first call and
  nothing on the repeated one, and let it publish nothing on topic \<open>nodes\<close> itself
  (what it publishes comes from the tracker, on topic \<open>states\<close>). Then the two calls
  of \<open>Moe.remember_node\<close> publish exactly one \<open>nodes\<close> event, keyed by the
  checksum public address of \<open>r\<close>; the second call adds no event to those of the
  inherited call and publishes nothing on \<open>nodes\<close>.
\<close>

theorem C2_remember_node_twice_one_event:
  assumes first: "super_rn args s0 = (Inr (Some r), out1, s1)"
      and again: "super_rn args s1 = (Inr None, out2, s2)"
      and quiet1: "received ''nodes'' out1 = []"
      and quiet2: "received ''nodes'' out2 = []"
  shows "run_calls (Moe_remember_node super_rn cpa abridged) [args, args] s0 =
           ([Inr (Some r), Inr None],
            out1 @ [([(cpa r, JDetail (abridged r))], ''nodes'')] @ out2, s2)
       \<and> received ''nodes''
           (fst (snd (run_calls (Moe_remember_node super_rn cpa abridged) [args, args] s0))) =
         [JArr [JStr ''nodes'', JObj [(cpa r, JDetail (abridged r))]]]
       \<and> published (Moe_remember_node super_rn cpa abridged args s1) = out2
       \<and> received ''nodes'' (published (Moe_remember_node super_rn cpa abridged args s1)) = []"
proof -
  have c1: "Moe_remember_node super_rn cpa abridged args s0 =
      (Inr (Some r), out1 @ [([(cpa r, JDetail (abridged r))], ''nodes'')], s1)"
    using first by (simp add: Moe_remember_node_cases)
  have c2: "Moe_remember_node super_rn cpa abridged args s1 = (Inr None, out2, s2)"
    using again by (simp add: Moe_remember_node_cases)
  have run: "run_calls (Moe_remember_node super_rn cpa abridged) [args, args] s0 =
           ([Inr (Some r), Inr None],
            out1 @ [([(cpa r, JDetail (abridged r))], ''nodes'')] @ out2, s2)"
    by (simp add: c1 c2)
  have rec: "received ''nodes'' (out1 @ [([(cpa r, JDetail (abridged r))], ''nodes'')] @ out2) =
      [JArr [JStr ''nodes'', JObj [(cpa r, JDetail (abridged r))]]]"
    using quiet1 quiet2 by (simp add: received_def wire_def)
  have p2: "published (Moe_remember_node super_rn cpa abridged args s1) = out2"
    by (simp add: c2 published_def)
  show ?thesis
    unfolding run p2 using rec quiet2 by simp
qed

text \<open>
  The in-memory fleet meets the precondition: remembering \<open>ursula_a\<close> in the empty
  fleet returns her and records the first state, remembering her again returns nothing.
\<close>

theorem C2_remember_node_twice_witness:
  "fleet_remember_node ursula_a empty_fleet =
     (Inr (Some ursula_a), [([(''0xA'', JDetail [''amber''])], ''states'')], seeded_fleet)
   \<and> fleet_remember_node ursula_a seeded_fleet = (Inr None, [], seeded_fleet)
   \<and> run_calls (Moe_remember_node fleet_remember_node checksum_public_address
         fleet_abridged_node_details) [ursula_a, ursula_a] empty_fleet =
       ([Inr (Some ursula_a), Inr None],
        [([(''0xA'', JDetail [''amber''])], ''states''),
         ([(''0xA'', JDetail [''amber''])], ''nodes'')], seeded_fleet)
   \<and> received ''nodes''
         (published (Moe_remember_node fleet_remember_node checksum_public_address
            fleet_abridged_node_details ursula_a seeded_fleet)) = []"
proof -
  have first: "fleet_remember_node ursula_a empty_fleet =
      (Inr (Some ursula_a), [([(''0xA'', JDetail [''amber''])], ''states'')], seeded_fleet)"
    by (simp add: fleet_simps)
  have again: "fleet_remember_node ursula_a seeded_fleet = (Inr None, [], seeded_fleet)"
    by (simp add: fleet_simps)
  have q1: "received ''nodes'' [([(''0xA'', JDetail [''amber''])], ''states'')] = []"
    by (simp add: received_def)
  have q2: "received ''nodes'' ([] :: string list event list) = []"
    by (simp add: received_def)
  have a: "checksum_public_address ursula_a = ''0xA''"
    by (simp add: ursula_a_def)
  have d: "fleet_abridged_node_details ursula_a = [''amber'']"
    by (simp add: ursula_a_def fleet_abridged_node_details_def)
  show ?thesis
    using C2_remember_node_twice_one_event [where super_rn = fleet_remember_node
        and args = ursula_a and ?s0.0 = empty_fleet and r = ursula_a and ?s1.0 = seeded_fleet
        and ?s2.0 = seeded_fleet and ?out1.0 = "[([(''0xA'', JDetail [''amber''])], ''states'')]"
        and ?out2.0 = "[]" and cpa = checksum_public_address
        and abridged = fleet_abridged_node_details, OF first again q1 q2] first again
    by (simp add: a d received_def del: run_calls.simps)
qed

section \<open>Learning rounds\<close>

text \<open>
  What an inherited learning that remembers the teacher's peers one by one publishes on
  topic \<open>nodes\<close> when it runs with \<open>Moe.remember_node\<close>: one event for each node it
  returns as new, in order (the inherited \<open>remember_node\<close> itself publishing nothing on
  that topic).
\<close>

lemma received_append: "received t (xs @ ys) = received t xs @ received t ys"
  by (simp add: received_def)

lemma remember_all_nodes_events:
  assumes quiet: "\<And>p s. received ''nodes'' (published (super_rn p s)) = []"
  shows "remember_all (Moe_remember_node super_rn cpa abridged) ps s = (Inr new_nodes, out, s') \<Longrightarrow>
         received ''nodes'' out =
           map (\<lambda>n. JArr [JStr ''nodes'', JObj [(cpa n, JDetail (abridged n))]]) new_nodes"
proof (induction ps arbitrary: s new_nodes out s')
  case Nil
  then show ?case by (simp add: ret_def received_def)
next
  case (Cons p ps)
  obtain r o1 s1 where b: "super_rn p s = (r, o1, s1)"
    by (cases "super_rn p s")
  have q: "received ''nodes'' o1 = []"
    using quiet [of p s] b by (simp add: published_def)
  show ?case
  proof (cases r)
    case (Inl e)
    then have "Moe_remember_node super_rn cpa abridged p s = (Inl e, o1, s1)"
      using b by (simp add: Moe_remember_node_cases)
    then show ?thesis using Cons.prems by (simp add: bind_def)
  next
    case (Inr x)
    obtain r2 o2 s2 where rest:
      "remember_all (Moe_remember_node super_rn cpa abridged) ps s1 = (r2, o2, s2)"
      by (cases "remember_all (Moe_remember_node super_rn cpa abridged) ps s1")
    show ?thesis
    proof (cases x)
      case None
      then have m: "Moe_remember_node super_rn cpa abridged p s = (Inr None, o1, s1)"
        using b Inr by (simp add: Moe_remember_node_cases)
      then have "r2 = Inr new_nodes \<and> out = o1 @ o2"
        using Cons.prems rest by (auto simp: bind_def ret_def split: sum.splits)
      then show ?thesis
        using Cons.IH [of s1 new_nodes o2 s2] rest q by (simp add: received_append)
    next
      case (Some n)
      then have m: "Moe_remember_node super_rn cpa abridged p s =
          (Inr (Some n), o1 @ [([(cpa n, JDetail (abridged n))], ''nodes'')], s1)"
        using b Inr by (simp add: Moe_remember_node_cases)
      then obtain ns where ns: "r2 = Inr ns" "new_nodes = n # ns"
        "out = (o1 @ [([(cpa n, JDetail (abridged n))], ''nodes'')]) @ o2"
        using Cons.prems rest by (auto simp: bind_def ret_def split: sum.splits)
      then show ?thesis
        using Cons.IH [of s1 ns o2 s2] rest q
        by (simp add: received_append) (simp add: received_def wire_def)
    qed
  qed
qed

text \<open>
  C3. In a learning round that completes (the teacher query yields a teacher before
  and after, the inherited learning returns), the events come in this order: first
  everything published during the inherited learning, which remembers nodes through
  \<open>Moe.remember_node\<close> and so publishes a \<open>nodes\<close> event for each new node; then one
  \<open>nodes\<close> event with the abridged details of the teacher that was current when the
  round began; then one \<open>teachers\<close> event with the identity of the teacher that is
  current after the inherited learning. The call returns what the inherited learning
  returned.
\<close>

theorem C3_learning_round_order:
  assumes teacher: "ctn False s = (Inr (Some teacher), s1)"
      and learnt: "super_learn (Moe_remember_node super_rn cpa abridged) args s1 =
                     (Inr new_nodes, out, s2)"
      and after: "ctn False s2 = (Inr (Some new_teacher), s3)"
  shows "Moe_learn_from_teacher_node ctn super_learn super_rn cpa abridged args s =
           (Inr new_nodes,
            out @ [([(cpa teacher, JDetail (abridged teacher))], ''nodes''),
                   ([(''current_teacher'', JStr (cpa new_teacher))], ''teachers'')],
            s3)"
  using teacher learnt after by (simp add: Moe_learn_from_teacher_node_cases)

text \<open>
  A round of the seeded fleet: \<open>ursula_a\<close> teaches \<open>ursula_b\<close> and \<open>ursula_c\<close>; their
  events come first, then the teacher's, then the new teacher's identity.
\<close>

theorem C3_learning_round_order_witness:
  "Moe_learn_from_teacher_node fleet_current_teacher_node
     (fleet_learn_from_teacher_node peers_of) fleet_remember_node checksum_public_address
     fleet_abridged_node_details () seeded_fleet =
   (Inr [ursula_b, ursula_c],
    [([(''0xA0xB'', JDetail [''amber'', ''blue''])], ''states''),
     ([(''0xB'', JDetail [''blue''])], ''nodes''),
     ([(''0xA0xB0xC'', JDetail [''amber'', ''blue'', ''coral''])], ''states''),
     ([(''0xC'', JDetail [''coral''])], ''nodes''),
     ([(''0xA'', JDetail [''amber''])], ''nodes''),
     ([(''current_teacher'', JStr ''0xB'')], ''teachers'')],
    learned_fleet)"
proof -
  have teacher: "fleet_current_teacher_node False seeded_fleet = (Inr (Some ursula_a), seeded_fleet)"
    by (simp add: fleet_teacher_query current_teacher_def seeded_fleet_def)
  have after: "fleet_current_teacher_node False learned_fleet = (Inr (Some ursula_b), learned_fleet)"
    by (simp add: fleet_teacher_query current_teacher_def learned_fleet_def)
  show ?thesis
    using C3_learning_round_order [where ctn = fleet_current_teacher_node
        and super_learn = "fleet_learn_from_teacher_node peers_of"
        and super_rn = fleet_remember_node and cpa = checksum_public_address
        and abridged = fleet_abridged_node_details, OF teacher seeded_round after]
    by (simp add: ursula_a_def ursula_b_def fleet_abridged_node_details_def)
qed

text \<open>
  C4. Whenever the teacher query yields a teacher and the inherited learning returns,
  the \<open>nodes\<close> event with the teacher's abridged details is published right after the
  events of the inherited learning, whatever the inherited learning returned as new
  nodes: no test on the new nodes or on the teacher being new guards it. (A round with
  no teacher, or whose inherited learning raises, ends before that line.)
\<close>

theorem C4_teacher_always_reannounced:
  assumes teacher: "ctn False s = (Inr (Some teacher), s1)"
      and learnt: "super_learn (Moe_remember_node super_rn cpa abridged) args s1 =
                     (Inr new_nodes, out, s2)"
  shows "published (Moe_learn_from_teacher_node ctn super_learn super_rn cpa abridged args s) =
           out @ [([(cpa teacher, JDetail (abridged teacher))], ''nodes'')] @
           (case fst (ctn False s2) of
              Inr (Some new_teacher) \<Rightarrow>
                [([(''current_teacher'', JStr (cpa new_teacher))], ''teachers'')]
            | Inr None \<Rightarrow> []
            | Inl e \<Rightarrow> [])"
  using teacher learnt
  by (simp add: Moe_learn_from_teacher_node_cases published_def
      split: prod.splits sum.splits option.splits)

text \<open>A round that learns nothing still announces its teacher.\<close>

theorem C4_teacher_always_reannounced_witness:
  "fleet_learn_from_teacher_node peers_of
     (Moe_remember_node fleet_remember_node checksum_public_address fleet_abridged_node_details)
     () quiet_fleet = (Inr [], [], quiet_fleet)
   \<and> published (Moe_learn_from_teacher_node fleet_current_teacher_node
       (fleet_learn_from_teacher_node peers_of) fleet_remember_node checksum_public_address
       fleet_abridged_node_details () quiet_fleet) =
     [([(''0xB'', JDetail [''blue''])], ''nodes''),
      ([(''current_teacher'', JStr ''0xB'')], ''teachers'')]"
proof -
  have teacher: "fleet_current_teacher_node False quiet_fleet = (Inr (Some ursula_b), quiet_fleet)"
    by (simp add: fleet_teacher_query current_teacher_def quiet_fleet_def)
  show ?thesis
    using C4_teacher_always_reannounced [where ctn = fleet_current_teacher_node
        and super_learn = "fleet_learn_from_teacher_node peers_of"
        and super_rn = fleet_remember_node and cpa = checksum_public_address
        and abridged = fleet_abridged_node_details, OF teacher quiet_round] quiet_round
    by (simp add: teacher ursula_b_def fleet_abridged_node_details_def)
qed

text \<open>
  C7. The override reads the teacher only through \<open>current_teacher_node(cycle=False)\<close>:
  it behaves the same under any \<open>current_teacher_node\<close> that agrees with the given one
  at \<open>cycle=False\<close>. Where that query is a plain read of the current-teacher pointer, the
  \<open>teachers\<close> event carries the identity of the teacher the pointer names after the
  inherited learning, and that identity differs from the one of the teacher before the
  round only if the inherited learning moved the pointer.
\<close>

theorem C7_teacher_queried_without_cycling:
  assumes same: "ctn' False = ctn False"
      and read: "\<And>s. ctn False s = (Inr (pointer s), s)"
      and teacher: "pointer s = Some teacher"
      and learnt: "super_learn (Moe_remember_node super_rn cpa abridged) args s =
                     (Inr new_nodes, out, s2)"
      and after: "pointer s2 = Some new_teacher"
  shows "Moe_learn_from_teacher_node ctn' super_learn super_rn cpa abridged args s =
           Moe_learn_from_teacher_node ctn super_learn super_rn cpa abridged args s
       \<and> Moe_learn_from_teacher_node ctn super_learn super_rn cpa abridged args s =
           (Inr new_nodes,
            out @ [([(cpa teacher, JDetail (abridged teacher))], ''nodes''),
                   ([(''current_teacher'', JStr (cpa new_teacher))], ''teachers'')],
            s2)
       \<and> (cpa new_teacher \<noteq> cpa teacher \<longrightarrow> pointer s2 \<noteq> pointer s)"
proof (intro conjI)
  show "Moe_learn_from_teacher_node ctn' super_learn super_rn cpa abridged args s =
      Moe_learn_from_teacher_node ctn super_learn super_rn cpa abridged args s"
    by (simp add: Moe_learn_from_teacher_node_def same)
  have q1: "ctn False s = (Inr (Some teacher), s)"
    using read [of s] teacher by simp
  have q2: "ctn False s2 = (Inr (Some new_teacher), s2)"
    using read [of s2] after by simp
  show "Moe_learn_from_teacher_node ctn super_learn super_rn cpa abridged args s =
      (Inr new_nodes,
       out @ [([(cpa teacher, JDetail (abridged teacher))], ''nodes''),
              ([(''current_teacher'', JStr (cpa new_teacher))], ''teachers'')],
       s2)"
    using q1 learnt q2 by (simp add: Moe_learn_from_teacher_node_cases)
  show "cpa new_teacher \<noteq> cpa teacher \<longrightarrow> pointer s2 \<noteq> pointer s"
    using teacher after by auto
qed

text \<open>
  In the seeded fleet the inherited learning rotates the teacher from \<open>ursula_a\<close> to
  \<open>ursula_b\<close>; a query that would do anything else under \<open>cycle=True\<close> gives the same
  round.
\<close>

theorem C7_teacher_queried_without_cycling_witness:
  "(\<lambda>cycle. fleet_current_teacher_node False) False = fleet_current_teacher_node False
   \<and> current_teacher seeded_fleet = Some ursula_a
   \<and> current_teacher learned_fleet = Some ursula_b
   \<and> Moe_learn_from_teacher_node (\<lambda>cycle. fleet_current_teacher_node False)
       (fleet_learn_from_teacher_node peers_of) fleet_remember_node checksum_public_address
       fleet_abridged_node_details () seeded_fleet =
     Moe_learn_from_teacher_node fleet_current_teacher_node
       (fleet_learn_from_teacher_node peers_of) fleet_remember_node checksum_public_address
       fleet_abridged_node_details () seeded_fleet
   \<and> received ''teachers''
       (published (Moe_learn_from_teacher_node fleet_current_teacher_node
          (fleet_learn_from_teacher_node peers_of) fleet_remember_node checksum_public_address
          fleet_abridged_node_details () seeded_fleet)) =
     [JArr [JStr ''teachers'', JObj [(''current_teacher'', JStr ''0xB'')]]]
   \<and> checksum_public_address ursula_b \<noteq> checksum_public_address ursula_a
   \<and> current_teacher learned_fleet \<noteq> current_teacher seeded_fleet"
proof -
  have same: "(\<lambda>cycle. fleet_current_teacher_node False) False = fleet_current_teacher_node False"
    by simp
  have teacher: "current_teacher seeded_fleet = Some ursula_a"
    by (simp add: current_teacher_def seeded_fleet_def)
  have after: "current_teacher learned_fleet = Some ursula_b"
    by (simp add: current_teacher_def learned_fleet_def)
  have differ: "checksum_public_address ursula_b \<noteq> checksum_public_address ursula_a"
    by (simp add: ursula_a_def ursula_b_def)
  show ?thesis
    using C7_teacher_queried_without_cycling [where ctn = fleet_current_teacher_node
        and ctn' = "\<lambda>cycle. fleet_current_teacher_node False" and pointer = current_teacher
        and super_learn = "fleet_learn_from_teacher_node peers_of"
        and super_rn = fleet_remember_node and cpa = checksum_public_address
        and abridged = fleet_abridged_node_details,
        OF same fleet_teacher_query teacher seeded_round after] teacher after differ
    by (simp add: published_def received_def wire_def ursula_b_def)
qed

text \<open>
  C9. When the first teacher query yields no teacher, the round never returns normally:
  the inherited learning still runs, and if it returns, building the teacher's \<open>nodes\<close>
  event raises \<open>AttributeError\<close>; nothing is published beyond what the inherited
  learning published.
\<close>

theorem C9_round_without_teacher_fails:
  assumes no_teacher: "ctn False s = (Inr None, s1)"
  shows "Moe_learn_from_teacher_node ctn super_learn super_rn cpa abridged args s =
           (case super_learn (Moe_remember_node super_rn cpa abridged) args s1 of
              (Inl e, out, s2) \<Rightarrow> (Inl e, out, s2)
            | (Inr new_nodes, out, s2) \<Rightarrow> (Inl AttributeError, out, s2))
       \<and> (\<forall>new_nodes.
            outcome (Moe_learn_from_teacher_node ctn super_learn super_rn cpa abridged args s) \<noteq>
            Inr new_nodes)"
  using no_teacher
  by (simp add: Moe_learn_from_teacher_node_cases outcome_def
      split: prod.splits sum.splits option.splits)

text \<open>The empty fleet has no teacher: its round is empty and then fails.\<close>

theorem C9_round_without_teacher_witness:
  "fleet_current_teacher_node False empty_fleet = (Inr None, empty_fleet)
   \<and> fleet_learn_from_teacher_node peers_of
       (Moe_remember_node fleet_remember_node checksum_public_address fleet_abridged_node_details)
       () empty_fleet = (Inr [], [], empty_fleet)
   \<and> Moe_learn_from_teacher_node fleet_current_teacher_node
       (fleet_learn_from_teacher_node peers_of) fleet_remember_node checksum_public_address
       fleet_abridged_node_details () empty_fleet =
     (Inl AttributeError, [], empty_fleet)"
proof -
  have no_teacher: "fleet_current_teacher_node False empty_fleet = (Inr None, empty_fleet)"
    by (simp add: fleet_teacher_query current_teacher_def empty_fleet_def)
  show ?thesis
    using C9_round_without_teacher_fails [where ctn = fleet_current_teacher_node
        and super_learn = "fleet_learn_from_teacher_node peers_of"
        and super_rn = fleet_remember_node and cpa = checksum_public_address
        and abridged = fleet_abridged_node_details and args = "()", OF no_teacher]
      no_teacher empty_round
    by simp
qed

section \<open>The wire contract\<close>

lemma list_all_is_detail_map:
  "list_all is_detail (map (\<lambda>(k, v). (k, JDetail v)) xs)"
  by (induction xs) auto

text \<open>
  C5, as stated, fails on the \<open>teachers\<close> message: its payload maps the fixed key
  \<open>current_teacher\<close> to an identity string, not an identity or checksum to an abridged
  detail object. The round of the quiet fleet publishes such a message.
\<close>

theorem C5_teachers_payload_counterexample:
  "\<not> list_all detail_message
       (map wire (published (Moe_learn_from_teacher_node fleet_current_teacher_node
          (fleet_learn_from_teacher_node peers_of) fleet_remember_node checksum_public_address
          fleet_abridged_node_details () quiet_fleet)))"
proof -
  have teacher: "fleet_current_teacher_node False quiet_fleet = (Inr (Some ursula_b), quiet_fleet)"
    by (simp add: fleet_teacher_query current_teacher_def quiet_fleet_def)
  have "Moe_learn_from_teacher_node fleet_current_teacher_node
          (fleet_learn_from_teacher_node peers_of) fleet_remember_node checksum_public_address
          fleet_abridged_node_details () quiet_fleet =
        (Inr [], [([(''0xB'', JDetail [''blue''])], ''nodes''),
                  ([(''current_teacher'', JStr ''0xB'')], ''teachers'')], quiet_fleet)"
    by (simp add: Moe_learn_from_teacher_node_cases teacher quiet_round ursula_b_def
        fleet_abridged_node_details_def)
  then show ?thesis
    by (simp add: published_def wire_def)
qed

text \<open>
  C5, amended. Every message is a two-element array of a topic and a payload. The
  late-join snapshots and the incremental events on topics \<open>states\<close> and \<open>nodes\<close> map
  checksums and node identities to abridged detail objects; the events that
  \<open>Moe.learn_from_teacher_node\<close> adds to those of the inherited learning are of that
  shape or, on topic \<open>teachers\<close>, map the key \<open>current_teacher\<close> to a string, the
  teacher's identity.
\<close>

theorem C5_feed_message_shapes:
  "detail_message (send_states abridged_states_dict monitor)
   \<and> detail_message (send_nodes abridged_nodes_dict monitor)
   \<and> list_all detail_message
       (map wire (published (MonitoringTracker_record_fleet_state super_rfs abridged_state args s)))
   \<and> list_all detail_message
       (map wire (drop (length (published (super_rn args' s)))
          (published (Moe_remember_node super_rn cpa abridged_node args' s))))
   \<and> list_all feed_message
       (map wire (drop
          (length (published
             (super_learn (Moe_remember_node super_rn cpa abridged_node) args''
                (snd (ctn False s)))))
          (published
             (Moe_learn_from_teacher_node ctn super_learn super_rn cpa abridged_node args'' s))))
   \<and> list_all teacher_message
       (received ''teachers'' (drop
          (length (published
             (super_learn (Moe_remember_node super_rn cpa abridged_node) args''
                (snd (ctn False s)))))
          (published
             (Moe_learn_from_teacher_node ctn super_learn super_rn cpa abridged_node args'' s))))"
proof (intro conjI)
  show "detail_message (send_states abridged_states_dict monitor)"
    by (simp add: send_states_def list_all_is_detail_map)
  show "detail_message (send_nodes abridged_nodes_dict monitor)"
    by (simp add: send_nodes_def list_all_is_detail_map)
  show "list_all detail_message
       (map wire (published (MonitoringTracker_record_fleet_state super_rfs abridged_state args s)))"
    by (simp add: MonitoringTracker_record_fleet_state_cases published_def wire_def
        split: prod.splits sum.splits option.splits)
  show "list_all detail_message
       (map wire (drop (length (published (super_rn args' s)))
          (published (Moe_remember_node super_rn cpa abridged_node args' s))))"
    by (simp add: Moe_remember_node_cases published_def wire_def
        split: prod.splits sum.splits option.splits)
  show "list_all feed_message
       (map wire (drop
          (length (published
             (super_learn (Moe_remember_node super_rn cpa abridged_node) args''
                (snd (ctn False s)))))
          (published
             (Moe_learn_from_teacher_node ctn super_learn super_rn cpa abridged_node args'' s))))"
    by (simp add: Moe_learn_from_teacher_node_cases published_def wire_def
        split: prod.splits sum.splits option.splits)
  show "list_all teacher_message
       (received ''teachers'' (drop
          (length (published
             (super_learn (Moe_remember_node super_rn cpa abridged_node) args''
                (snd (ctn False s)))))
          (published
             (Moe_learn_from_teacher_node ctn super_learn super_rn cpa abridged_node args'' s))))"
    by (simp add: Moe_learn_from_teacher_node_cases published_def wire_def received_def
        split: prod.splits sum.splits option.splits)
qed


section \<open>Late-join snapshots\<close>

text \<open>
  C10. The service has a follow-up for exactly the topics \<open>states\<close> and \<open>nodes\<close>. A
  subscriber that registers on \<open>states\<close> is sent the full snapshot
  \<open>["states", abridged_states_dict()]\<close>, one that registers on \<open>nodes\<close> the full
  snapshot \<open>["nodes", abridged_nodes_dict()]\<close>, and these two messages are all that the
  handlers of the service produce: none of them is on topic \<open>teachers\<close>. No handler is
  associated with \<open>teachers\<close>, so a subscriber that registers there gets no snapshot;
  its feed is the \<open>teachers\<close> events published from then on.
\<close>

theorem C10_followups_for_states_and_nodes_only:
  "dom (moe_websocket_service abridged_states_dict abridged_nodes_dict) = {''states'', ''nodes''}
   \<and> on_subscribe (moe_websocket_service abridged_states_dict abridged_nodes_dict)
         ''states'' monitor =
       [JArr [JStr ''states'',
              JObj (map (\<lambda>(k, v). (k, JDetail v)) (abridged_states_dict monitor))]]
   \<and> on_subscribe (moe_websocket_service abridged_states_dict abridged_nodes_dict)
         ''nodes'' monitor =
       [JArr [JStr ''nodes'',
              JObj (map (\<lambda>(k, v). (k, JDetail v)) (abridged_nodes_dict monitor))]]
   \<and> (\<lambda>handler. handler monitor) `
         ran (moe_websocket_service abridged_states_dict abridged_nodes_dict) =
       {JArr [JStr ''states'',
              JObj (map (\<lambda>(k, v). (k, JDetail v)) (abridged_states_dict monitor))],
        JArr [JStr ''nodes'',
              JObj (map (\<lambda>(k, v). (k, JDetail v)) (abridged_nodes_dict monitor))]}
   \<and> moe_websocket_service abridged_states_dict abridged_nodes_dict ''teachers'' = None
   \<and> on_subscribe (moe_websocket_service abridged_states_dict abridged_nodes_dict)
         ''teachers'' monitor = []
   \<and> subscriber_feed (moe_websocket_service abridged_states_dict abridged_nodes_dict)
         ''teachers'' monitor later_events =
       map (\<lambda>e. JArr [JStr ''teachers'', JObj (fst e)])
         (filter (\<lambda>e. snd e = ''teachers'') later_events)"
proof -
  have r: "ran (moe_websocket_service abridged_states_dict abridged_nodes_dict) =
      {send_nodes abridged_nodes_dict, send_states abridged_states_dict}"
    by (simp add: moe_websocket_service_def register_followup_def WebSocketService_def
        ran_map_upd)
  have f: "map wire (filter (\<lambda>e. snd e = ''teachers'') later_events) =
      map (\<lambda>e. JArr [JStr ''teachers'', JObj (fst e)])
        (filter (\<lambda>e. snd e = ''teachers'') later_events)"
    by (induction later_events) (auto simp: wire_def)
  have d: "dom (moe_websocket_service abridged_states_dict abridged_nodes_dict) =
      {''states'', ''nodes''}"
    by (auto simp: moe_websocket_service_def register_followup_def WebSocketService_def)
  show ?thesis
    using d f
    by (auto simp: r moe_websocket_service_def register_followup_def WebSocketService_def
        on_subscribe_def subscriber_feed_def received_def send_states_def send_nodes_def)
qed

section \<open>Back-off of the learning loop\<close>

lemma run_rounds_append:
  "run_rounds cfg loop (rs @ rs') = run_rounds cfg (run_rounds cfg loop rs) rs'"
  by (induction rs arbitrary: loop) auto

text \<open>
  Rounds without new nodes, from any state of the loop and under any configuration:
  each one counts, and the interval is the long one as soon as the count has reached
  the threshold. A round that stays within the timeout and learns a node resets both.
\<close>

lemma run_rounds_without_new_nodes:
  assumes "\<forall>r\<in>set rs. LEARNING_TIMEOUT cfg < duration r \<or> learned r = 0"
  shows "run_rounds cfg loop rs =
     \<lparr>interval =
        (if rs \<noteq> [] \<and>
            ROUNDS_WITHOUT_NODES_AFTER_WHICH_TO_SLOW_DOWN cfg \<le>
              rounds_without_new_nodes loop + length rs
         then LONG_LEARNING_DELAY cfg else interval loop),
      rounds_without_new_nodes = rounds_without_new_nodes loop + length rs\<rparr>"
  using assms
proof (induction rs arbitrary: loop)
  case Nil
  show ?case by simp
next
  case (Cons r rs)
  have empty: "new_node_count cfg r = 0"
    using Cons.prems by (auto simp: new_node_count_def)
  have step: "after_round cfg loop r =
      \<lparr>interval =
         (if ROUNDS_WITHOUT_NODES_AFTER_WHICH_TO_SLOW_DOWN cfg \<le> rounds_without_new_nodes loop + 1
          then LONG_LEARNING_DELAY cfg else interval loop),
       rounds_without_new_nodes = rounds_without_new_nodes loop + 1\<rparr>"
    by (simp add: after_round_def empty)
  have rest: "\<forall>r\<in>set rs. LEARNING_TIMEOUT cfg < duration r \<or> learned r = 0"
    using Cons.prems by simp
  show ?case
    by (simp add: Cons.IH [OF rest] step)
qed

lemma after_round_with_new_nodes:
  assumes "duration r \<le> LEARNING_TIMEOUT cfg" and "0 < learned r"
  shows "after_round cfg loop r =
     \<lparr>interval = SHORT_LEARNING_DELAY cfg, rounds_without_new_nodes = 0\<rparr>"
  using assms by (simp add: after_round_def new_node_count_def)

text \<open>
  C6, as stated, fails under the monitor's constants. Three rounds that exceed the
  timeout of 10 s count as three rounds without new nodes, whatever they report as
  learned, and leave the interval at the short value, because the threshold is 25.
\<close>

theorem C6_three_timeouts_counterexample:
  "run_rounds Moe_config (start_learning_loop Moe_config)
      [timed_out_round, timed_out_round, timed_out_round] =
     \<lparr>interval = 1 / 2, rounds_without_new_nodes = 3\<rparr>
   \<and> interval (run_rounds Moe_config (start_learning_loop Moe_config)
      [timed_out_round, timed_out_round, timed_out_round]) \<noteq> LONG_LEARNING_DELAY Moe_config"
  by (simp add: start_learning_loop_def after_round_def new_node_count_def Moe_config_def
      timed_out_round_def)

text \<open>
  C6, amended. The loop starts at the short interval (0.5 s). Let \<open>rs\<close> be any
  consecutive rounds without new nodes: each exceeds the timeout of 10 s (whatever it
  reports as learned) or learns nothing. From any state of the loop they add their
  number to the count of such rounds, and the interval is the long one (30 s) exactly
  when there is at least one and the count has reached the threshold of 25; from the
  start that is when \<open>rs\<close> has at least 25 rounds, so three do not suffice. Any round
  \<open>r'\<close> that stays within the timeout and returns new nodes sets the interval back to
  the short one and the count to zero, from any state and in particular after \<open>rs\<close>.
  Under a threshold of 3 instead of 25, three such rounds reach the long interval.
\<close>

theorem C6_back_off_after_threshold:
  assumes empty: "\<forall>r\<in>set rs. 10 < duration r \<or> learned r = 0"
      and fresh: "duration r' \<le> 10 \<and> 0 < learned r'"
  shows "interval (start_learning_loop Moe_config) = 1 / 2
   \<and> run_rounds Moe_config loop rs =
       \<lparr>interval =
          (if rs \<noteq> [] \<and> 25 \<le> rounds_without_new_nodes loop + length rs
           then 30 else interval loop),
        rounds_without_new_nodes = rounds_without_new_nodes loop + length rs\<rparr>
   \<and> interval (run_rounds Moe_config (start_learning_loop Moe_config) rs) =
       (if 25 \<le> length rs then 30 else 1 / 2)
   \<and> after_round Moe_config loop r' = \<lparr>interval = 1 / 2, rounds_without_new_nodes = 0\<rparr>
   \<and> interval (run_rounds Moe_config (start_learning_loop Moe_config) (rs @ [r'])) = 1 / 2
   \<and> interval
       (run_rounds (Moe_config\<lparr>ROUNDS_WITHOUT_NODES_AFTER_WHICH_TO_SLOW_DOWN := 3\<rparr>)
          (start_learning_loop (Moe_config\<lparr>ROUNDS_WITHOUT_NODES_AFTER_WHICH_TO_SLOW_DOWN := 3\<rparr>))
          rs) =
       (if 3 \<le> length rs then 30 else 1 / 2)"
proof -
  have e: "\<forall>r\<in>set rs. LEARNING_TIMEOUT Moe_config < duration r \<or> learned r = 0"
    using empty by (simp add: Moe_config_def)
  have e3: "\<forall>r\<in>set rs.
      LEARNING_TIMEOUT (Moe_config\<lparr>ROUNDS_WITHOUT_NODES_AFTER_WHICH_TO_SLOW_DOWN := 3\<rparr>) < duration r \<or>
      learned r = 0"
    using empty by (simp add: Moe_config_def)
  have f: "duration r' \<le> LEARNING_TIMEOUT Moe_config" "0 < learned r'"
    using fresh by (simp_all add: Moe_config_def)
  have reset: "after_round Moe_config l r' = \<lparr>interval = 1 / 2, rounds_without_new_nodes = 0\<rparr>" for l
    using after_round_with_new_nodes [OF f, of l] by (simp add: Moe_config_def)
  have c1: "interval (start_learning_loop Moe_config) = 1 / 2"
    by (simp add: start_learning_loop_def Moe_config_def)
  have c2: "run_rounds Moe_config l rs =
       \<lparr>interval =
          (if rs \<noteq> [] \<and> 25 \<le> rounds_without_new_nodes l + length rs
           then 30 else interval l),
        rounds_without_new_nodes = rounds_without_new_nodes l + length rs\<rparr>" for l
    using run_rounds_without_new_nodes [OF e, of l] by (simp add: Moe_config_def)
  have c3: "interval (run_rounds Moe_config (start_learning_loop Moe_config) rs) =
       (if 25 \<le> length rs then 30 else 1 / 2)"
    by (simp add: c2) (simp add: start_learning_loop_def Moe_config_def)
  have c5: "interval (run_rounds Moe_config (start_learning_loop Moe_config) (rs @ [r'])) = 1 / 2"
    by (simp add: run_rounds_append reset)
  have c6: "interval
       (run_rounds (Moe_config\<lparr>ROUNDS_WITHOUT_NODES_AFTER_WHICH_TO_SLOW_DOWN := 3\<rparr>)
          (start_learning_loop (Moe_config\<lparr>ROUNDS_WITHOUT_NODES_AFTER_WHICH_TO_SLOW_DOWN := 3\<rparr>))
          rs) =
       (if 3 \<le> length rs then 30 else 1 / 2)"
    using run_rounds_without_new_nodes [OF e3,
        of "start_learning_loop (Moe_config\<lparr>ROUNDS_WITHOUT_NODES_AFTER_WHICH_TO_SLOW_DOWN := 3\<rparr>)"]
    by (auto simp: start_learning_loop_def Moe_config_def)
  show ?thesis
    using c1 c2 [of loop] c3 reset [of loop] c5 c6 by blast
qed

text \<open>
  Rounds of 11 s that report four nodes are abandoned: 24 of them leave the interval
  at 0.5 s, the 25th makes it 30 s, and a round of 1 s with two new nodes resets it.
\<close>

theorem C6_back_off_witness:
  "(10 :: rat) < duration \<lparr>duration = 11, learned = 4\<rparr>
   \<and> duration \<lparr>duration = 1, learned = 2\<rparr> \<le> (10 :: rat)
   \<and> (0 :: nat) < learned \<lparr>duration = 1, learned = 2\<rparr>
   \<and> interval (run_rounds Moe_config (start_learning_loop Moe_config)
        (replicate 24 \<lparr>duration = 11, learned = 4\<rparr>)) = 1 / 2
   \<and> interval (run_rounds Moe_config (start_learning_loop Moe_config)
        (replicate 25 \<lparr>duration = 11, learned = 4\<rparr>)) = 30
   \<and> interval (run_rounds Moe_config (start_learning_loop Moe_config)
        (replicate 25 \<lparr>duration = 11, learned = 4\<rparr> @ [\<lparr>duration = 1, learned = 2\<rparr>])) = 1 / 2"
proof -
  have e: "\<forall>r\<in>set (replicate n \<lparr>duration = 11, learned = 4\<rparr>). 10 < duration r \<or> learned r = 0"
    for n :: nat
    by simp
  have f: "duration \<lparr>duration = 1, learned = 2\<rparr> \<le> (10 :: rat)
      \<and> 0 < learned \<lparr>duration = 1, learned = 2\<rparr>"
    by simp
  show ?thesis
    using C6_back_off_after_threshold [OF e [of 24] f, where loop = "start_learning_loop Moe_config"]
      C6_back_off_after_threshold [OF e [of 25] f, where loop = "start_learning_loop Moe_config"]
    by (simp add: start_learning_loop_def)
qed

end
